theory Spec2Isabelle
  imports Main "HOL-Library.Sublist"
begin

section \<open>Session lifecycle of a login manager: a shallow embedding\<close>

text \<open>
  The development embeds the two Go source files of the session core:
  \<^verbatim>\<open>session.go\<close> (the controller \<^verbatim>\<open>commonSession.start\<close>, the environment
  policy \<^verbatim>\<open>defineEnvironment\<close>, the command builder \<^verbatim>\<open>prepareGuiCommand\<close>) and
  \<^verbatim>\<open>daemon.go\<close> (the issue printer \<^verbatim>\<open>printIssue\<close>).  Go strings are byte
  strings and are modelled as \<^typ>\<open>string\<close>; Go's \<^verbatim>\<open>int\<close> is modelled as
  \<^typ>\<open>int\<close> (no arithmetic is performed on it, only comparison with 0).
  Everything the code does to the outside world is recorded as an event of a trace;
  every way in which a function can fail to return (a panic of the Go runtime, a
  process exit inside an error handler) is a value of the result.
\<close>

subsection \<open>Go string primitives\<close>

text \<open>\<^verbatim>\<open>strings.Contains(s, sub)\<close>: \<open>sub\<close> occurs in \<open>s\<close> as a contiguous block.\<close>

fun strings_Contains :: "string \<Rightarrow> string \<Rightarrow> bool" where
  "strings_Contains [] sub = (sub = [])"
| "strings_Contains (c # cs) sub =
     (take (length sub) (c # cs) = sub \<or> strings_Contains cs sub)"

text \<open>
  \<^verbatim>\<open>strings.Split(s, " ")\<close> for a one-byte separator: the string is cut at every
  occurrence of the separator; two adjacent separators give an empty token, and the
  empty string gives the one-element list holding the empty string.
\<close>

fun strings_Split :: "string \<Rightarrow> char \<Rightarrow> string list" where
  "strings_Split [] sep = [[]]"
| "strings_Split (c # cs) sep =
     (if c = sep then [] # strings_Split cs sep
      else (case strings_Split cs sep of
              [] \<Rightarrow> [[c]]
            | w # ws \<Rightarrow> (c # w) # ws))"

text \<open>\<^verbatim>\<open>strings.Join\<close> for a one-byte separator, the inverse of the cut.\<close>

fun strings_Join :: "string list \<Rightarrow> char \<Rightarrow> string" where
  "strings_Join [] sep = []"
| "strings_Join [w] sep = w"
| "strings_Join (w # v # ws) sep = w @ sep # strings_Join (v # ws) sep"

text \<open>\<^verbatim>\<open>strconv.Itoa\<close>, as used by the identity's \<^verbatim>\<open>strUid\<close>.\<close>

fun digits :: "nat \<Rightarrow> string" where
  "digits n = (if n < 10 then [''0123456789'' ! n]
               else digits (n div 10) @ [''0123456789'' ! (n mod 10)])"

definition Itoa :: "int \<Rightarrow> string" where
  "Itoa i = (if i < 0 then CHR ''-'' # digits (nat (- i)) else digits (nat i))"

subsection \<open>Failure of a call to return; traces of effects\<close>

datatype abort =
    ExitProcess        \<comment> \<open>the process is terminated inside an error handler\<close>
  | NilDereference     \<comment> \<open>run-time panic: method call or field read through nil\<close>
  | SliceOutOfRange    \<comment> \<open>run-time panic: slice bounds out of range\<close>

subsection \<open>\<^verbatim>\<open>daemon.go\<close>: printing the issue file\<close>

definition newline :: char where
  "newline = CHR 0x0A"

text \<open>
  The loop of \<^verbatim>\<open>printIssue\<close>:
  \<^verbatim>\<open>for issue[len(issue)-2:] == "\n\n" { issue = issue[:len(issue)-1] }\<close>.
  The slice expression \<^verbatim>\<open>issue[len(issue)-2:]\<close> panics when \<^verbatim>\<open>len(issue)-2\<close> is
  negative; otherwise it is the last two bytes.
\<close>

definition lastTwo :: "string \<Rightarrow> abort + string" where
  "lastTwo issue =
     (if int (length issue) - 2 < 0 then Inl SliceOutOfRange
      else Inr (drop (length issue - 2) issue))"

function trimIssue :: "string \<Rightarrow> abort + string" where
  "trimIssue issue =
     (case lastTwo issue of
        Inl a \<Rightarrow> Inl a
      | Inr t \<Rightarrow>
          if t = [newline, newline]
          then trimIssue (take (length issue - 1) issue)
          else Inr issue)"
  by pat_completeness auto
termination
  by (relation "measure length") (auto simp: lastTwo_def split: if_splits)

declare trimIssue.simps [simp del]

text \<open>
  \<^verbatim>\<open>printIssue\<close>.  The file system, the text that
  \<^verbatim>\<open>evaluateIssueVars(issue, findUniqueIssueVars(issue), strTTY)\<close> returns (it runs
  external commands) and \<^verbatim>\<open>revertColorEscaping\<close> (declared outside the source files)
  are answers of the world.  The value is the text printed, \<open>None\<close> when nothing is
  printed.
\<close>

record daemonWorld =
  pathExists :: "string \<Rightarrow> bool"
  ioutilReadFile :: "string \<Rightarrow> string + string"
  evaluatedIssue :: "string \<Rightarrow> string \<Rightarrow> string"
  revertColorEscaping :: "string \<Rightarrow> string"

definition printIssue :: "daemonWorld \<Rightarrow> string \<Rightarrow> string \<Rightarrow> abort + string option" where
  "printIssue w path tty =
     (if pathExists w path then
        (case ioutilReadFile w path of
           Inl err \<Rightarrow> Inr None
         | Inr bIssue \<Rightarrow>
             (case trimIssue (evaluatedIssue w bIssue tty) of
                Inl a \<Rightarrow> Inl a
              | Inr issue \<Rightarrow> Inr (Some (revertColorEscaping w issue))))
      else Inr None)"

subsection \<open>\<^verbatim>\<open>session.go\<close>: the data model\<close>

text \<open>The names of the environment variables, as the constant block declares them.\<close>

definition envXdgConfigHome :: string where "envXdgConfigHome = ''XDG_CONFIG_HOME''"
definition envXdgRuntimeDir :: string where "envXdgRuntimeDir = ''XDG_RUNTIME_DIR''"
definition envXdgSessionId :: string where "envXdgSessionId = ''XDG_SESSION_ID''"
definition envXdgSessionType :: string where "envXdgSessionType = ''XDG_SESSION_TYPE''"
definition envXdgSessionClass :: string where "envXdgSessionClass = ''XDG_SESSION_CLASS''"
definition envXdgSeat :: string where "envXdgSeat = ''XDG_SEAT''"
definition envHome :: string where "envHome = ''HOME''"
definition envPwd :: string where "envPwd = ''PWD''"
definition envUser :: string where "envUser = ''USER''"
definition envLogname :: string where "envLogname = ''LOGNAME''"
definition envXauthority :: string where "envXauthority = ''XAUTHORITY''"
definition envDisplay :: string where "envDisplay = ''DISPLAY''"
definition envShell :: string where "envShell = ''SHELL''"
definition envLang :: string where "envLang = ''LANG''"
definition envPath :: string where "envPath = ''PATH''"
definition envDesktopSession :: string where "envDesktopSession = ''DESKTOP_SESSION''"
definition envXdgSessDesktop :: string where "envXdgSessDesktop = ''XDG_SESSION_DESKTOP''"
definition envUid :: string where "envUid = ''UID''"

text \<open>
  The display-server family \<^verbatim>\<open>d.env\<close>.  Its type is declared outside the two source
  files; \<^verbatim>\<open>startSession\<close> switches on the two values \<^verbatim>\<open>Wayland\<close> and \<^verbatim>\<open>Xorg\<close> and
  has no default case, so every other value of the Go type is kept as \<open>OtherEnv\<close>.
\<close>

datatype enEnvironment = Wayland | Xorg | OtherEnv nat

text \<open>
  The methods \<^verbatim>\<open>sessionType()\<close> and \<^verbatim>\<open>string()\<close> of the family are declared with
  its type, outside the source files.  They only produce text (the value of
  \<^verbatim>\<open>XDG_SESSION_TYPE\<close>, and the family's name in messages).
\<close>

fun sessionType :: "enEnvironment \<Rightarrow> string" where
  "sessionType Wayland = ''wayland''"
| "sessionType Xorg = ''x11''"
| "sessionType (OtherEnv n) = []"

fun envString :: "enEnvironment \<Rightarrow> string" where
  "envString Wayland = ''Wayland''"
| "envString Xorg = ''Xorg''"
| "envString (OtherEnv n) = ''Undefined''"

text \<open>
  \<^verbatim>\<open>sysuser\<close>: the fields and methods that \<^verbatim>\<open>session.go\<close> uses.  The environment
  mapping is a Go \<^verbatim>\<open>map[string]string\<close>.
\<close>

record sysuser =
  username :: string
  homedir :: string
  uid :: int
  gid :: int
  shell :: string
  env :: "string \<rightharpoonup> string"

text \<open>
  Modelled from the spec: the accessors of the identity's environment mapping
  (\<^verbatim>\<open>getenv\<close>, \<^verbatim>\<open>setenv\<close>, \<^verbatim>\<open>setenvIfEmpty\<close>), \<^verbatim>\<open>strUid\<close> and \<^verbatim>\<open>getShell\<close> are
  methods declared outside the source files.  The spec gives: a mapping from string to
  string with unique keys; entries that are "always set"; entries that are "set only if
  currently empty"; the uid as a number in text; the identity's resolved shell.  Reading
  a key that is absent gives the empty string, as a Go map does.
\<close>

definition getenv :: "sysuser \<Rightarrow> string \<Rightarrow> string" where
  "getenv u key = (case env u key of None \<Rightarrow> [] | Some v \<Rightarrow> v)"

definition setenv :: "sysuser \<Rightarrow> string \<Rightarrow> string \<Rightarrow> sysuser" where
  "setenv u key val = u\<lparr>env := (env u)(key \<mapsto> val)\<rparr>"

definition setenvIfEmpty :: "sysuser \<Rightarrow> string \<Rightarrow> string \<Rightarrow> sysuser" where
  "setenvIfEmpty u key val = (if getenv u key = [] then setenv u key val else u)"

definition strUid :: "sysuser \<Rightarrow> string" where
  "strUid u = Itoa (uid u)"

definition getShell :: "sysuser \<Rightarrow> string" where
  "getShell u = shell u"

text \<open>
  \<^verbatim>\<open>desktop\<close>: the fields that \<^verbatim>\<open>session.go\<close> reads.  Of the child selection only the
  name is read (\<open>None\<close> is the nil pointer).  The method \<^verbatim>\<open>getStrExec\<close> is declared
  outside the source files; the pair it returns (the command line, and whether a
  startup prefix is allowed) is kept as the two fields \<open>strExec\<close> and
  \<open>allowStartupPrefix\<close>.
\<close>

record desktop =
  name :: string
  child :: "string option"
  denv :: enEnvironment
  isUser :: bool
  loginShell :: string
  strExec :: string
  allowStartupPrefix :: bool

definition getStrExec :: "desktop \<Rightarrow> string \<times> bool" where
  "getStrExec dsk = (strExec dsk, allowStartupPrefix dsk)"

text \<open>\<^verbatim>\<open>config\<close>: the fields read; \<open>strTTY\<close> is the text of its method of that name.\<close>

record config =
  NoXdgFallback :: bool
  AlwaysDbusLaunch :: bool
  XinitrcLaunch :: bool
  DbusLaunch :: bool
  Lang :: string
  strTTY :: string

text \<open>
  The two implementations of the interface \<^verbatim>\<open>session\<close>; the embedded interface value
  of \<^verbatim>\<open>commonSession\<close> is \<open>None\<close> when nil.  The field \<open>dbus\<close> holds whether the
  pointer \<^verbatim>\<open>s.dbus\<close> is non-nil.
\<close>

datatype carrier = waylandSession | xorgSession

record commonSession =
  session :: "carrier option"
  usr :: sysuser
  d :: desktop
  conf :: config
  dbus :: bool

text \<open>
  Modelled from the spec: \<^verbatim>\<open>cmdAsUser\<close> is declared outside the source files.  The spec
  gives: a child-process descriptor, not yet started, that executes the given program
  with the given arguments under the uid and gid of the target user.
\<close>

record cmd =
  cmdName :: string
  cmdArgs :: "string list"
  cmdUid :: int
  cmdGid :: int

definition cmdAsUser :: "sysuser \<Rightarrow> string \<Rightarrow> string list \<Rightarrow> cmd" where
  "cmdAsUser u nm args = \<lparr>cmdName = nm, cmdArgs = args, cmdUid = uid u, cmdGid = gid u\<rparr>"

text \<open>
  What the controller does to the outside world, in the order of the calls.
\<close>

datatype event =
    LogPrint string
  | MkdirAll string nat
  | Chown string int int
  | Chdir string
  | StartCarrier carrier
  | FinishCarrier carrier
  | SpawnInterruptWatcher
  | DbusLaunchCall
  | DbusInterrupt
  | SessionStart cmd
  | SessionWait
  | AddUtmpEntry string int string string
  | EndUtmpEntry
  | HandleErr string
  | HandleStrErr string
  | ProcessSignalInterrupt
  | WatcherWait

text \<open>
  The global \<^verbatim>\<open>var interrupted bool\<close> starts as false.  The watcher
  \<^verbatim>\<open>handleInterrupt\<close> runs as a goroutine of its own: once a signal arrives on its
  channel it sets the global, logs, signals the child and waits for it.  Its value here
  is the global after it, with its events.  Nothing in the source writes the global
  back to false.
\<close>

definition interruptedInit :: bool where
  "interruptedInit = False"

definition handleInterrupt :: "bool \<Rightarrow> bool \<times> event list" where
  "handleInterrupt interrupted0 =
     (True, [LogPrint ''Caught interrupt signal'', ProcessSignalInterrupt, WatcherWait])"

text \<open>
  The controller observes the watcher only through the global, which it reads twice
  at the end of \<^verbatim>\<open>start\<close>.  The interleaving is given by when the watcher's write
  arrives, relative to the two reads.
\<close>

datatype interruptArrival = NoInterrupt | BeforeExitCheck | BetweenChecks

text \<open>
  The answers of the outside world to the calls of the controller: the file system,
  the results of the system calls and of the collaborators declared outside the source
  files.  An error is the text of the Go \<^verbatim>\<open>error\<close>, \<open>None\<close> is nil.
\<close>

record world =
  fileExists :: "string \<Rightarrow> bool"
  defineSpecificEnvVariables :: "sysuser \<Rightarrow> sysuser"
  osGetenvPath :: string
  mkdirAllErr :: "string option"
  startCarrierErr :: "string option"
  getCarrierPid :: int
  finishCarrierErr :: "string option"
  sessionErrLogErr :: "string option"
  startErr :: "string option"
  processPid :: int
  waitErr :: "string option"
  interrupt :: interruptArrival

text \<open>A computation: the events it performed, and its value unless it did not return.\<close>

type_synonym 'a res = "event list \<times> (abort + 'a)"

definition ret :: "'a \<Rightarrow> 'a res" where
  "ret x = ([], Inr x)"

definition emit :: "event \<Rightarrow> unit res" where
  "emit e = ([e], Inr ())"

definition panic :: "abort \<Rightarrow> 'a res" where
  "panic a = ([], Inl a)"

definition andThen :: "'a res \<Rightarrow> ('a \<Rightarrow> 'b res) \<Rightarrow> 'b res" where
  "andThen m f =
     (case m of
        (es, Inl a) \<Rightarrow> (es, Inl a)
      | (es, Inr x) \<Rightarrow> (case f x of (es', r) \<Rightarrow> (es @ es', r)))"

definition trace :: "'a res \<Rightarrow> event list" where
  "trace m = fst m"

definition outcome :: "'a res \<Rightarrow> abort + 'a" where
  "outcome m = snd m"

text \<open>
  Modelled from the spec: \<^verbatim>\<open>handleErr\<close> and \<^verbatim>\<open>handleStrErr\<close> are declared outside the
  source files.  The spec gives: a failure to launch the process is fatal to the session
  attempt and the session is not recorded in the ledger; failures are reported through
  the logging sink and by the abnormal termination of the controller; the failure of
  the child or of the carrier is surfaced to the user as a generic message.  So a nil
  error (an empty message) is ignored, and any other one is reported and ends the
  process.  The controller itself relies on this: after \<^verbatim>\<open>handleErr(err)\<close> on a failed
  \<^verbatim>\<open>session.Start()\<close> it goes on to read \<^verbatim>\<open>session.Process.Pid\<close>.
\<close>

definition handleErr :: "string option \<Rightarrow> unit res" where
  "handleErr err =
     (case err of
        None \<Rightarrow> ret ()
      | Some e \<Rightarrow> andThen (emit (HandleErr e)) (\<lambda>_. panic ExitProcess))"

definition handleStrErr :: "string \<Rightarrow> unit res" where
  "handleStrErr msg =
     (if msg = [] then ret ()
      else andThen (emit (HandleStrErr msg)) (\<lambda>_. panic ExitProcess))"

subsection \<open>\<^verbatim>\<open>session.go\<close>: the operations\<close>

text \<open>
  \<^verbatim>\<open>defineEnvironment\<close>, in two parts.  The first part is the environment policy:
  the calls of \<^verbatim>\<open>setenv\<close> and \<^verbatim>\<open>setenvIfEmpty\<close> from the call of
  \<^verbatim>\<open>defineSpecificEnvVariables\<close> down to the desktop-session names, in the order of
  the source; \<open>u0\<close>, \<open>u1\<close>, ... is the identity after each call or group of calls.
\<close>

definition environmentPolicy :: "world \<Rightarrow> commonSession \<Rightarrow> sysuser" where
  "environmentPolicy w s =
    (let u0 = defineSpecificEnvVariables w (usr s);
         u1 = setenv u0 envHome (homedir u0);
         u2 = setenv u1 envPwd (homedir u1);
         u3 = setenv u2 envUser (username u2);
         u4 = setenv u3 envLogname (username u3);
         u5 = setenv u4 envUid (strUid u4);
         u6 = (if \<not> NoXdgFallback (conf s) then
                 (let a = setenvIfEmpty u5 envXdgConfigHome (homedir u5 @ ''/.config'');
                      b = setenvIfEmpty a envXdgRuntimeDir (''/run/user/'' @ strUid a);
                      c = setenvIfEmpty b envXdgSeat ''seat0''
                  in setenv c envXdgSessionClass ''user'')
               else u5);
         u7 = setenv u6 envShell (getShell u6);
         u8 = setenvIfEmpty u7 envLang (Lang (conf s));
         u9 = setenvIfEmpty u8 envPath (osGetenvPath w)
     in (if \<not> NoXdgFallback (conf s) then
           (if name (d s) \<noteq> [] then
              setenv (setenv u9 envDesktopSession (name (d s)))
                envXdgSessDesktop (name (d s))
            else (case child (d s) of
                    None \<Rightarrow> u9
                  | Some cn \<Rightarrow>
                      if cn \<noteq> [] then
                        setenv (setenv u9 envDesktopSession cn) envXdgSessDesktop cn
                      else u9))
         else u9))"

text \<open>
  The second part: the log line, the creation of the runtime directory and the change
  of the working directory.  The result is the session with the identity that the
  policy leaves.  The mode \<^verbatim>\<open>0700\<close> of \<^verbatim>\<open>os.MkdirAll\<close> is octal: 448.  The result
  of \<^verbatim>\<open>os.Chown\<close> is dropped by the source.
\<close>

definition defineEnvironment :: "world \<Rightarrow> commonSession \<Rightarrow> commonSession res" where
  "defineEnvironment w s =
    (let u = environmentPolicy w s in
     andThen (emit (LogPrint ''Defined Environment'')) (\<lambda>_.
     andThen
       (if \<not> NoXdgFallback (conf s) then
          (if \<not> fileExists w (getenv u envXdgRuntimeDir) then
             andThen (emit (MkdirAll (getenv u envXdgRuntimeDir) 448)) (\<lambda>_.
             andThen (handleErr (mkdirAllErr w)) (\<lambda>_.
             andThen (emit (Chown (getenv u envXdgRuntimeDir) (uid u) (gid u))) (\<lambda>_.
             emit (LogPrint ''Created XDG folder''))))
           else emit (LogPrint ''XDG folder already exists, no need to create''))
        else ret ()) (\<lambda>_.
     andThen (emit (Chdir (getenv u envPwd))) (\<lambda>_.
     ret (s\<lparr>usr := u\<rparr>)))))"

text \<open>\<^verbatim>\<open>getLoginShell\<close>.\<close>

definition getLoginShell :: "commonSession \<Rightarrow> string" where
  "getLoginShell s = (if loginShell (d s) \<noteq> [] then loginShell (d s) else ''/bin/sh'')"

text \<open>
  \<^verbatim>\<open>prepareGuiCommand\<close>.  It returns the command and the text of the command line; it
  may also set \<^verbatim>\<open>s.dbus\<close>, so the session is returned as well.  The variable
  \<^verbatim>\<open>startScript\<close> and the command line after the first conditional are the pair
  \<open>(startScript, strExec')\<close>.
\<close>

definition prepareGuiCommand ::
  "world \<Rightarrow> commonSession \<Rightarrow> commonSession \<times> cmd \<times> string" where
  "prepareGuiCommand w s =
    (case getStrExec (d s) of (strExec0, allowStartupPrefix0) \<Rightarrow>
     let startScript0 = (isUser (d s) \<and> \<not> allowStartupPrefix0);
         xinitrc = (allowStartupPrefix0 \<and> XinitrcLaunch (conf s) \<and> denv (d s) = Xorg
                    \<and> \<not> strings_Contains strExec0 ''.xinitrc''
                    \<and> fileExists w (homedir (usr s) @ ''/.xinitrc''));
         startScript = (if xinitrc then True else startScript0);
         strExec' = (if xinitrc then homedir (usr s) @ ''/.xinitrc '' @ strExec0
                     else strExec0);
         s' = (if xinitrc then s
               else if allowStartupPrefix0 \<and> DbusLaunch (conf s)
                       \<and> \<not> strings_Contains strExec0 ''dbus-launch''
                    then s\<lparr>dbus := True\<rparr>
                    else s);
         c = (if startScript
              then cmdAsUser (usr s) (getLoginShell s) (strings_Split strExec' CHR '' '')
              else cmdAsUser (usr s) strExec' [])
     in (s', c, strExec'))"

text \<open>
  The three methods of the interface \<^verbatim>\<open>session\<close>, called through the embedded field
  of \<^verbatim>\<open>commonSession\<close>: a call through the nil interface value panics.  The bodies of the
  two implementations are outside the source files; what they return is an answer of
  the world, and what they may write to the environment of the identity is left out
  (no statement of \<^verbatim>\<open>start\<close> reads it back but the display of the accounting entry).

  Modelled from the spec: a carrier that cannot be started is a startup error, fatal
  to the session attempt (the method itself returns nothing to its caller).
\<close>

definition startCarrier :: "world \<Rightarrow> commonSession \<Rightarrow> unit res" where
  "startCarrier w s =
     (case session s of
        None \<Rightarrow> panic NilDereference
      | Some c \<Rightarrow> andThen (emit (StartCarrier c)) (\<lambda>_. handleErr (startCarrierErr w)))"

definition getCarrierPidOf :: "world \<Rightarrow> commonSession \<Rightarrow> int res" where
  "getCarrierPidOf w s =
     (case session s of
        None \<Rightarrow> panic NilDereference
      | Some c \<Rightarrow> ret (getCarrierPid w))"

definition finishCarrier :: "world \<Rightarrow> commonSession \<Rightarrow> (string option) res" where
  "finishCarrier w s =
     (case session s of
        None \<Rightarrow> panic NilDereference
      | Some c \<Rightarrow> andThen (emit (FinishCarrier c)) (\<lambda>_. ret (finishCarrierErr w)))"

text \<open>
  \<^verbatim>\<open>session.Process.Pid\<close>: the field \<^verbatim>\<open>Process\<close> of an \<^verbatim>\<open>exec.Cmd\<close> is nil unless
  \<^verbatim>\<open>Start\<close> has succeeded.
\<close>

definition sessionProcessPid :: "world \<Rightarrow> int res" where
  "sessionProcessPid w =
     (case startErr w of None \<Rightarrow> ret (processPid w) | Some e \<Rightarrow> panic NilDereference)"

text \<open>The value of the global \<^verbatim>\<open>interrupted\<close> at its first and at its second read.\<close>

definition interruptedAtExitCheck :: "world \<Rightarrow> bool" where
  "interruptedAtExitCheck w =
     (case interrupt w of
        BeforeExitCheck \<Rightarrow> fst (handleInterrupt interruptedInit)
      | BetweenChecks \<Rightarrow> interruptedInit
      | NoInterrupt \<Rightarrow> interruptedInit)"

definition interruptedAtCarrierCheck :: "world \<Rightarrow> bool" where
  "interruptedAtCarrierCheck w =
     (case interrupt w of
        BeforeExitCheck \<Rightarrow> fst (handleInterrupt interruptedInit)
      | BetweenChecks \<Rightarrow> fst (handleInterrupt interruptedInit)
      | NoInterrupt \<Rightarrow> interruptedInit)"

text \<open>
  \<^verbatim>\<open>commonSession.start\<close>, statement by statement, in four parts.  The first part is
  the launch of the child: from the start of the watcher to \<^verbatim>\<open>session.Start()\<close> and the
  handling of its error.  The deferred \<^verbatim>\<open>sessionErrLog.Close()\<close> and the assignment
  of \<^verbatim>\<open>session.Stderr\<close> leave no event.
\<close>

definition launch :: "world \<Rightarrow> commonSession \<Rightarrow> cmd \<Rightarrow> string \<Rightarrow> unit res" where
  "launch w s session0 strExec0 =
     andThen (emit SpawnInterruptWatcher) (\<lambda>_.
     andThen (case sessionErrLogErr w of
                None \<Rightarrow> ret ()
              | Some e \<Rightarrow> emit (LogPrint e)) (\<lambda>_.
     andThen (if dbus s then emit DbusLaunchCall else ret ()) (\<lambda>_.
     andThen (emit (LogPrint (''Starting '' @ strExec0))) (\<lambda>_.
     andThen (emit (SessionStart session0)) (\<lambda>_.
     (case startErr w of
        Some err \<Rightarrow> andThen (finishCarrier w s) (\<lambda>_. handleErr (Some err))
      | None \<Rightarrow> ret ()))))))"

text \<open>
  The second part: from \<^verbatim>\<open>pid := s.getCarrierPid()\<close> to the end of the accounting
  entry.  Its value is \<^verbatim>\<open>err\<close>, the result of \<^verbatim>\<open>session.Wait()\<close>, with
  \<^verbatim>\<open>carrierErr\<close>.
\<close>

definition supervise ::
  "world \<Rightarrow> commonSession \<Rightarrow> (string option \<times> string option) res" where
  "supervise w s =
     andThen (getCarrierPidOf w s) (\<lambda>pid0.
     andThen (if pid0 \<le> 0 then sessionProcessPid w else ret pid0) (\<lambda>pid.
     andThen (emit (AddUtmpEntry (username (usr s)) pid (strTTY (conf s))
                      (getenv (usr s) envDisplay))) (\<lambda>_.
     andThen (emit (LogPrint ''Added utmp entry'')) (\<lambda>_.
     andThen (emit SessionWait) (\<lambda>_.
     andThen (if dbus s then emit DbusInterrupt else ret ()) (\<lambda>_.
     andThen (finishCarrier w s) (\<lambda>carrierErr.
     andThen (emit EndUtmpEntry) (\<lambda>_.
     andThen (emit (LogPrint ''Ended utmp entry'')) (\<lambda>_.
     ret (waitErr w, carrierErr))))))))))"

text \<open>
  The third part: the two conditionals that end \<^verbatim>\<open>start\<close>, on \<^verbatim>\<open>err\<close> and on
  \<^verbatim>\<open>carrierErr\<close>, each guarded by a read of the global \<^verbatim>\<open>interrupted\<close>.
\<close>

definition escalate ::
  "world \<Rightarrow> commonSession \<Rightarrow> string \<Rightarrow> string option \<Rightarrow> string option \<Rightarrow> unit res" where
  "escalate w s strExec0 err carrierErr =
     andThen (case err of
                Some e \<Rightarrow>
                  if \<not> interruptedAtExitCheck w then
                    andThen (emit (LogPrint (strExec0 @ '' finished with error: '' @ e
                       @ ''. For more details see `SESSION_ERROR_LOGGING` in configuration.''))) (\<lambda>_.
                    handleStrErr (envString (denv (d s))
                       @ '' session finished with error, please check logs''))
                  else ret ()
              | None \<Rightarrow> ret ()) (\<lambda>_.
     (case carrierErr of
        Some e \<Rightarrow>
          if \<not> interruptedAtCarrierCheck w then
            andThen (emit (LogPrint (envString (denv (d s)) @ '' finished with error: '' @ e))) (\<lambda>_.
            handleStrErr (envString (denv (d s)) @ '' finished with error, please check logs''))
          else ret ()
      | None \<Rightarrow> ret ()))"

text \<open>
  The session as it is when \<^verbatim>\<open>prepareGuiCommand\<close> is called: the session type is set
  unless the fallback is suppressed, and \<^verbatim>\<open>s.dbus\<close> is set when the configuration
  always asks for it.
\<close>

definition beforeCommand :: "commonSession \<Rightarrow> commonSession" where
  "beforeCommand s1 =
     (let s2 = (if \<not> NoXdgFallback (conf s1)
                then s1\<lparr>usr := setenv (usr s1) envXdgSessionType (sessionType (denv (d s1)))\<rparr>
                else s1)
      in (if AlwaysDbusLaunch (conf s2) then s2\<lparr>dbus := True\<rparr> else s2))"

text \<open>The whole of \<^verbatim>\<open>start\<close>.\<close>

definition start :: "world \<Rightarrow> commonSession \<Rightarrow> unit res" where
  "start w s0 =
     andThen (defineEnvironment w s0) (\<lambda>s1.
     andThen (startCarrier w s1) (\<lambda>_.
     (case prepareGuiCommand w (beforeCommand s1) of (s, session0, strExec0) \<Rightarrow>
     andThen (launch w s session0 strExec0) (\<lambda>_.
     andThen (supervise w s) (\<lambda>(err, carrierErr).
     escalate w s strExec0 err carrierErr)))))"

text \<open>
  \<^verbatim>\<open>startSession\<close>: the session starts with both the interface value and \<^verbatim>\<open>dbus\<close>
  nil; the switch on the family fills the interface value in two cases only.
\<close>

definition newSession :: "sysuser \<Rightarrow> desktop \<Rightarrow> config \<Rightarrow> commonSession" where
  "newSession u dsk cnf =
     (let s = \<lparr>session = None, usr = u, d = dsk, conf = cnf, dbus = False\<rparr>
      in (case denv dsk of
            Wayland \<Rightarrow> s\<lparr>session := Some waylandSession\<rparr>
          | Xorg \<Rightarrow> s\<lparr>session := Some xorgSession\<rparr>
          | OtherEnv n \<Rightarrow> s))"

definition startSession :: "world \<Rightarrow> sysuser \<Rightarrow> desktop \<Rightarrow> config \<Rightarrow> unit res" where
  "startSession w u dsk cnf = start w (newSession u dsk cnf)"

subsection \<open>Observations on traces\<close>

fun isAddUtmpEntry :: "event \<Rightarrow> bool" where
  "isAddUtmpEntry (AddUtmpEntry u p t dsp) = True"
| "isAddUtmpEntry e = False"

fun isEndUtmpEntry :: "event \<Rightarrow> bool" where
  "isEndUtmpEntry EndUtmpEntry = True"
| "isEndUtmpEntry e = False"


fun isHandleStrErr :: "event \<Rightarrow> bool" where
  "isHandleStrErr (HandleStrErr m) = True"
| "isHandleStrErr e = False"

definition countEv :: "(event \<Rightarrow> bool) \<Rightarrow> 'a res \<Rightarrow> nat" where
  "countEv P m = length (filter P (trace m))"

text \<open>The process ids under which the trace records accounting entries.\<close>

fun utmpPids :: "event list \<Rightarrow> int list" where
  "utmpPids [] = []"
| "utmpPids (AddUtmpEntry u p t dsp # es) = p # utmpPids es"
| "utmpPids (e # es) = utmpPids es"

fun isLedgerEvent :: "event \<Rightarrow> bool" where
  "isLedgerEvent (AddUtmpEntry u p t dsp) = True"
| "isLedgerEvent EndUtmpEntry = True"
| "isLedgerEvent e = False"

text \<open>
  The events by which the claims about the lifecycle are stated: the start of the
  child and the wait for it, the accounting entry, the stop of the carrier and the
  report of a failure to the user.
\<close>

fun isLifecycleEvent :: "event \<Rightarrow> bool" where
  "isLifecycleEvent (SessionStart c) = True"
| "isLifecycleEvent SessionWait = True"
| "isLifecycleEvent (AddUtmpEntry u p t dsp) = True"
| "isLifecycleEvent EndUtmpEntry = True"
| "isLifecycleEvent (FinishCarrier c) = True"
| "isLifecycleEvent (HandleStrErr m) = True"
| "isLifecycleEvent e = False"

text \<open>
  The value of the variable \<^verbatim>\<open>pid\<close> of \<^verbatim>\<open>start\<close> when the accounting entry is added:
  \<^verbatim>\<open>pid := s.getCarrierPid(); if pid <= 0 { pid = session.Process.Pid }\<close>.
\<close>

definition accountingPid :: "world \<Rightarrow> int" where
  "accountingPid w = (if getCarrierPid w \<le> 0 then processPid w else getCarrierPid w)"

text \<open>
  The controller reaches the launch of the child: \<^verbatim>\<open>defineEnvironment\<close> has returned,
  the interface value is not nil and the carrier has started.
\<close>

definition reached :: "world \<Rightarrow> commonSession \<Rightarrow> bool" where
  "reached w s0 \<longleftrightarrow>
     (\<exists>s1. outcome (defineEnvironment w s0) = Inr s1) \<and> session s0 \<noteq> None
     \<and> startCarrierErr w = None"

subsection \<open>Concrete sessions\<close>

text \<open>
  A user, a configuration, two desktop selections and a world in which every call
  succeeds; the theorems below are run on them and on variations of them.
\<close>

definition alice :: sysuser where
  "alice = \<lparr>username = ''alice'', homedir = ''/home/alice'', uid = 1000, gid = 1000,
             shell = ''/bin/bash'', env = Map.empty\<rparr>"

definition tty2Config :: config where
  "tty2Config = \<lparr>NoXdgFallback = False, AlwaysDbusLaunch = False, XinitrcLaunch = False,
                  DbusLaunch = False, Lang = ''en_US.UTF-8'', strTTY = ''tty2''\<rparr>"

definition compositorDesktop :: desktop where
  "compositorDesktop = \<lparr>name = ''sway'', child = None, denv = Wayland, isUser = False,
                         loginShell = [], strExec = ''sway'', allowStartupPrefix = True\<rparr>"

definition xorgDesktop :: desktop where
  "xorgDesktop = \<lparr>name = ''i3'', child = None, denv = Xorg, isUser = False,
                   loginShell = [], strExec = ''i3 -V'', allowStartupPrefix = True\<rparr>"


definition quietWorld :: world where
  "quietWorld = \<lparr>fileExists = (\<lambda>p. p = ''/home/alice/.xinitrc''),
                  defineSpecificEnvVariables = (\<lambda>u. u),
                  osGetenvPath = ''/usr/bin:/bin'',
                  mkdirAllErr = None,
                  startCarrierErr = None,
                  getCarrierPid = 0,
                  finishCarrierErr = None,
                  sessionErrLogErr = None,
                  startErr = None,
                  processPid = 4242,
                  waitErr = None,
                  interrupt = NoInterrupt\<rparr>"

text \<open>
  An issue file with the given contents and no escape sequence in it, so that the
  evaluation of its variables returns the contents.
\<close>

definition issueFile :: "string \<Rightarrow> daemonWorld" where
  "issueFile contents = \<lparr>pathExists = (\<lambda>p. p = ''/etc/issue''),
                          ioutilReadFile = (\<lambda>p. Inr contents),
                          evaluatedIssue = (\<lambda>issue tty. issue),
                          revertColorEscaping = (\<lambda>issue. issue)\<rparr>"

section \<open>Properties\<close>

subsection \<open>The string primitives\<close>

text \<open>
  \<open>strings_Contains\<close> is the contiguous-sublist relation of the library.  The cut
  of \<open>strings_Split\<close> loses nothing: no token holds the separator, and the tokens
  joined by the separator give the string back.
\<close>

lemma take_length_eq_prefix: "take (length xs) ys = xs \<longleftrightarrow> prefix xs ys"
proof
  assume "take (length xs) ys = xs"
  then have "ys = xs @ drop (length xs) ys" by (metis append_take_drop_id)
  then show "prefix xs ys" by (metis prefixI)
next
  assume "prefix xs ys"
  then show "take (length xs) ys = xs" by (auto simp add: prefix_def)
qed

lemma strings_Contains_sublist: "strings_Contains s sub \<longleftrightarrow> sublist sub s"
  by (induction s) (simp_all add: sublist_Cons_right take_length_eq_prefix)

lemma strings_Split_not_empty: "strings_Split s sep \<noteq> []"
  by (induction s) (auto split: list.splits)

lemma strings_Join_Split: "strings_Join (strings_Split s sep) sep = s"
proof (induction s)
  case Nil
  show ?case by simp
next
  case (Cons c cs)
  obtain w ws where sp: "strings_Split cs sep = w # ws"
    using strings_Split_not_empty [of cs sep] by (cases "strings_Split cs sep") auto
  show ?case
  proof (cases "c = sep")
    case True
    with Cons sp show ?thesis by simp
  next
    case False
    with Cons sp show ?thesis by (cases ws) auto
  qed
qed

lemma strings_Split_tokens: "w \<in> set (strings_Split s sep) \<Longrightarrow> sep \<notin> set w"
proof (induction s arbitrary: w)
  case Nil
  then show ?case by simp
next
  case (Cons c cs)
  obtain v vs where sp: "strings_Split cs sep = v # vs"
    using strings_Split_not_empty [of cs sep] by (cases "strings_Split cs sep") auto
  show ?case
  proof (cases "c = sep")
    case True
    with Cons show ?thesis by auto
  next
    case False
    with Cons.prems sp have "w = c # v \<or> w \<in> set vs" by auto
    then show ?thesis
    proof
      assume "w = c # v"
      moreover have "sep \<notin> set v" using Cons.IH [of v] sp by simp
      ultimately show ?thesis using False by auto
    next
      assume "w \<in> set vs"
      then show ?thesis using Cons.IH [of w] sp by simp
    qed
  qed
qed

subsection \<open>Traces and outcomes of the parts\<close>

lemma trace_ret [simp]: "trace (ret x) = []" by (simp add: trace_def ret_def)
lemma outcome_ret [simp]: "outcome (ret x) = Inr x" by (simp add: outcome_def ret_def)
lemma trace_emit [simp]: "trace (emit e) = [e]" by (simp add: trace_def emit_def)
lemma outcome_emit [simp]: "outcome (emit e) = Inr ()" by (simp add: outcome_def emit_def)
lemma trace_panic [simp]: "trace (panic a) = []" by (simp add: trace_def panic_def)
lemma outcome_panic [simp]: "outcome (panic a) = Inl a" by (simp add: outcome_def panic_def)

lemma trace_andThen:
  "trace (andThen m f) = trace m @ (case outcome m of Inl a \<Rightarrow> [] | Inr x \<Rightarrow> trace (f x))"
  by (cases m) (simp add: trace_def outcome_def andThen_def split: sum.splits prod.splits)

lemma outcome_andThen:
  "outcome (andThen m f) = (case outcome m of Inl a \<Rightarrow> Inl a | Inr x \<Rightarrow> outcome (f x))"
  by (cases m) (simp add: trace_def outcome_def andThen_def split: sum.splits prod.splits)

lemmas run = trace_andThen outcome_andThen

lemma trace_handleErr:
  "trace (handleErr err) = (case err of None \<Rightarrow> [] | Some e \<Rightarrow> [HandleErr e])"
  by (simp add: handleErr_def run split: option.splits)

lemma outcome_handleErr:
  "outcome (handleErr err) = (case err of None \<Rightarrow> Inr () | Some e \<Rightarrow> Inl ExitProcess)"
  by (simp add: handleErr_def run split: option.splits)

lemma trace_handleStrErr:
  "trace (handleStrErr m) = (if m = [] then [] else [HandleStrErr m])"
  by (simp add: handleStrErr_def run)

lemma outcome_handleStrErr:
  "outcome (handleStrErr m) = (if m = [] then Inr () else Inl ExitProcess)"
  by (simp add: handleStrErr_def run)

lemma trace_defineEnvironment:
  "trace (defineEnvironment w s) =
     LogPrint ''Defined Environment'' #
     (let u = environmentPolicy w s; dir = getenv u envXdgRuntimeDir in
      if NoXdgFallback (conf s) then [Chdir (getenv u envPwd)]
      else if fileExists w dir then
        [LogPrint ''XDG folder already exists, no need to create'', Chdir (getenv u envPwd)]
      else (case mkdirAllErr w of
              None \<Rightarrow> [MkdirAll dir 448, Chown dir (uid u) (gid u),
                        LogPrint ''Created XDG folder'', Chdir (getenv u envPwd)]
            | Some e \<Rightarrow> [MkdirAll dir 448, HandleErr e]))"
  by (simp add: defineEnvironment_def Let_def run trace_handleErr outcome_handleErr
      split: option.splits)

lemma outcome_defineEnvironment:
  "outcome (defineEnvironment w s) =
     (if \<not> NoXdgFallback (conf s)
         \<and> \<not> fileExists w (getenv (environmentPolicy w s) envXdgRuntimeDir)
         \<and> mkdirAllErr w \<noteq> None
      then Inl ExitProcess
      else Inr (s\<lparr>usr := environmentPolicy w s\<rparr>))"
  by (simp add: defineEnvironment_def Let_def run trace_handleErr outcome_handleErr
      split: option.splits)

lemma trace_startCarrier:
  "trace (startCarrier w s) =
     (case session s of None \<Rightarrow> []
      | Some c \<Rightarrow> StartCarrier c # (case startCarrierErr w of None \<Rightarrow> [] | Some e \<Rightarrow> [HandleErr e]))"
  by (simp add: startCarrier_def run trace_handleErr split: option.splits)

lemma outcome_startCarrier:
  "outcome (startCarrier w s) =
     (case session s of None \<Rightarrow> Inl NilDereference
      | Some c \<Rightarrow> (case startCarrierErr w of None \<Rightarrow> Inr () | Some e \<Rightarrow> Inl ExitProcess))"
  by (simp add: startCarrier_def run outcome_handleErr split: option.splits)

lemma trace_finishCarrier:
  "trace (finishCarrier w s) = (case session s of None \<Rightarrow> [] | Some c \<Rightarrow> [FinishCarrier c])"
  by (simp add: finishCarrier_def run split: option.splits)

lemma outcome_finishCarrier:
  "outcome (finishCarrier w s) =
     (case session s of None \<Rightarrow> Inl NilDereference | Some c \<Rightarrow> Inr (finishCarrierErr w))"
  by (simp add: finishCarrier_def run split: option.splits)

lemma trace_launch:
  "trace (launch w s c se) =
     SpawnInterruptWatcher #
     (case sessionErrLogErr w of None \<Rightarrow> [] | Some e \<Rightarrow> [LogPrint e]) @
     (if dbus s then [DbusLaunchCall] else []) @
     [LogPrint (''Starting '' @ se), SessionStart c] @
     (case startErr w of None \<Rightarrow> []
      | Some err \<Rightarrow> (case session s of None \<Rightarrow> [] | Some k \<Rightarrow> [FinishCarrier k, HandleErr err]))"
  by (simp add: launch_def run trace_handleErr trace_finishCarrier outcome_finishCarrier
      split: option.splits)

lemma outcome_launch:
  "outcome (launch w s c se) =
     (case startErr w of None \<Rightarrow> Inr ()
      | Some err \<Rightarrow> (case session s of None \<Rightarrow> Inl NilDereference | Some k \<Rightarrow> Inl ExitProcess))"
  by (simp add: launch_def run outcome_handleErr outcome_finishCarrier split: option.splits)



lemma trace_supervise:
  "trace (supervise w s) =
     (case session s of None \<Rightarrow> []
      | Some k \<Rightarrow>
          if getCarrierPid w \<le> 0 \<and> startErr w \<noteq> None then []
          else [AddUtmpEntry (username (usr s)) (accountingPid w) (strTTY (conf s))
                  (getenv (usr s) envDisplay),
                LogPrint ''Added utmp entry'', SessionWait] @
               (if dbus s then [DbusInterrupt] else []) @
               [FinishCarrier k, EndUtmpEntry, LogPrint ''Ended utmp entry''])"
  by (simp add: supervise_def run getCarrierPidOf_def sessionProcessPid_def accountingPid_def
      trace_finishCarrier outcome_finishCarrier split: option.splits)

lemma outcome_supervise:
  "outcome (supervise w s) =
     (case session s of None \<Rightarrow> Inl NilDereference
      | Some k \<Rightarrow>
          if getCarrierPid w \<le> 0 \<and> startErr w \<noteq> None then Inl NilDereference
          else Inr (waitErr w, finishCarrierErr w))"
  by (simp add: supervise_def run getCarrierPidOf_def sessionProcessPid_def
      trace_finishCarrier outcome_finishCarrier split: option.splits)

lemma handleStrErr_free_escalate:
  "interrupt w = BeforeExitCheck \<Longrightarrow> trace (escalate w s se err cerr) = []"
  by (simp add: escalate_def run interruptedAtExitCheck_def interruptedAtCarrierCheck_def
      handleInterrupt_def split: option.splits)

lemma outcome_escalate_interrupted:
  "interrupt w = BeforeExitCheck \<Longrightarrow> outcome (escalate w s se err cerr) = Inr ()"
  by (simp add: escalate_def run interruptedAtExitCheck_def interruptedAtCarrierCheck_def
      handleInterrupt_def split: option.splits)

lemma filter_escalate:
  assumes "\<And>t. \<not> P (LogPrint t)" "\<And>t. \<not> P (HandleStrErr t)"
  shows "filter P (trace (escalate w s se err cerr)) = []"
  using assms
  by (simp add: escalate_def run trace_handleStrErr outcome_handleStrErr split: option.splits)

lemma session_beforeCommand [simp]: "session (beforeCommand s) = session s"
  by (simp add: beforeCommand_def Let_def)

lemma session_prepareGuiCommand:
  "prepareGuiCommand w s = (s', c, se) \<Longrightarrow> session s' = session s"
  by (auto simp add: prepareGuiCommand_def getStrExec_def Let_def split: if_splits)

text \<open>
  The trace of \<^verbatim>\<open>start\<close> is the concatenation of the traces of its parts, cut at the
  first part that does not return.
\<close>

lemma trace_start:
  assumes "prepareGuiCommand w (beforeCommand (s0\<lparr>usr := environmentPolicy w s0\<rparr>)) = (s, c, se)"
  shows "trace (start w s0) =
     trace (defineEnvironment w s0) @
     (case outcome (defineEnvironment w s0) of Inl a \<Rightarrow> []
      | Inr s1 \<Rightarrow>
         trace (startCarrier w s0) @
         (case outcome (startCarrier w s0) of Inl a \<Rightarrow> []
          | Inr x \<Rightarrow>
             trace (launch w s c se) @
             (case outcome (launch w s c se) of Inl a \<Rightarrow> []
              | Inr y \<Rightarrow>
                 trace (supervise w s) @
                 (case outcome (supervise w s) of Inl a \<Rightarrow> []
                  | Inr (err, cerr) \<Rightarrow> trace (escalate w s se err cerr)))))"
  using assms
  by (simp add: start_def run outcome_defineEnvironment trace_startCarrier outcome_startCarrier
      split: sum.splits option.splits prod.splits)

text \<open>The lifecycle events of each part, and of the whole.\<close>

lemma lifecycle_defineEnvironment:
  "filter isLifecycleEvent (trace (defineEnvironment w s)) = []"
  by (simp add: trace_defineEnvironment Let_def split: option.splits)

lemma lifecycle_startCarrier:
  "filter isLifecycleEvent (trace (startCarrier w s)) = []"
  by (simp add: trace_startCarrier split: option.splits)

lemma lifecycle_launch:
  "filter isLifecycleEvent (trace (launch w s c se)) =
     SessionStart c #
     (case startErr w of None \<Rightarrow> []
      | Some err \<Rightarrow> (case session s of None \<Rightarrow> [] | Some k \<Rightarrow> [FinishCarrier k]))"
  by (simp add: trace_launch split: option.splits)

lemma lifecycle_supervise:
  "filter isLifecycleEvent (trace (supervise w s)) =
     (case session s of None \<Rightarrow> []
      | Some k \<Rightarrow>
          if getCarrierPid w \<le> 0 \<and> startErr w \<noteq> None then []
          else [AddUtmpEntry (username (usr s)) (accountingPid w) (strTTY (conf s))
                  (getenv (usr s) envDisplay),
                SessionWait, FinishCarrier k, EndUtmpEntry])"
  by (auto simp add: trace_supervise split: option.splits)

lemma lifecycle_escalate:
  "filter isLifecycleEvent (trace (escalate w s se err cerr))
     = filter isHandleStrErr (trace (escalate w s se err cerr))"
  by (simp add: escalate_def run trace_handleStrErr outcome_handleStrErr split: option.splits)

lemma lifecycle_start:
  assumes "prepareGuiCommand w (beforeCommand (s0\<lparr>usr := environmentPolicy w s0\<rparr>)) = (s, c, se)"
  shows "filter isLifecycleEvent (trace (start w s0)) =
    (case outcome (defineEnvironment w s0) of
       Inl a \<Rightarrow> []
     | Inr s1 \<Rightarrow>
        (case session s0 of
           None \<Rightarrow> []
         | Some k \<Rightarrow>
            (case startCarrierErr w of
               Some e \<Rightarrow> []
             | None \<Rightarrow>
                 SessionStart c #
                 (case startErr w of
                    Some err \<Rightarrow> [FinishCarrier k]
                  | None \<Rightarrow>
                      [AddUtmpEntry (username (usr s)) (accountingPid w) (strTTY (conf s))
                         (getenv (usr s) envDisplay),
                       SessionWait, FinishCarrier k, EndUtmpEntry] @
                      filter isHandleStrErr
                        (trace (escalate w s se (waitErr w) (finishCarrierErr w)))))))"
proof -
  have ss: "session s = session s0"
    using session_prepareGuiCommand [OF assms] by simp
  show ?thesis
    by (auto simp add: trace_start [OF assms] lifecycle_defineEnvironment lifecycle_startCarrier
        lifecycle_launch lifecycle_supervise lifecycle_escalate outcome_startCarrier
        outcome_launch outcome_supervise ss
        split: sum.splits option.splits)
qed

subsection \<open>The trimming loop of \<^verbatim>\<open>printIssue\<close>\<close>

lemma lastTwo_short: "length issue < 2 \<Longrightarrow> lastTwo issue = Inl SliceOutOfRange"
  by (simp add: lastTwo_def)

lemma lastTwo_long:
  "2 \<le> length issue \<Longrightarrow> lastTwo issue = Inr (drop (length issue - 2) issue)"
  by (simp add: lastTwo_def)

lemma two_last_bytes:
  assumes "2 \<le> length xs"
  shows "\<exists>ys a b. xs = ys @ [a, b]"
proof (cases xs rule: rev_cases)
  case Nil
  with assms show ?thesis by simp
next
  case (snoc zs b)
  with assms have "zs \<noteq> []" by auto
  then obtain ys a where "zs = ys @ [a]" by (cases zs rule: rev_cases) auto
  with snoc show ?thesis by simp
qed

lemma trimIssue_returns_iff:
  "(\<exists>r. trimIssue issue = Inr r) \<longleftrightarrow> 2 \<le> length issue \<and> (\<exists>c\<in>set issue. c \<noteq> newline)"
proof (induction issue rule: trimIssue.induct)
  case (1 issue)
  show ?case
  proof (cases "length issue < 2")
    case True
    then have "trimIssue issue = Inl SliceOutOfRange"
      by (subst trimIssue.simps) (simp add: lastTwo_short)
    with True show ?thesis by simp
  next
    case False
    then have len: "2 \<le> length issue" by simp
    then obtain ys a b where iss: "issue = ys @ [a, b]"
      using two_last_bytes by blast
    have lt: "lastTwo issue = Inr [a, b]" using iss by (simp add: lastTwo_def)
    show ?thesis
    proof (cases "a = newline \<and> b = newline")
      case True
      have tk: "take (length issue - 1) issue = ys @ [a]" using iss by simp
      have "trimIssue issue = trimIssue (take (length issue - 1) issue)"
        using True by (subst trimIssue.simps) (simp add: lt)
      then have step: "trimIssue issue = trimIssue (ys @ [a])"
        using tk by simp
      have "(\<exists>r. trimIssue (take (length issue - 1) issue) = Inr r) \<longleftrightarrow>
             2 \<le> length (take (length issue - 1) issue)
             \<and> (\<exists>c\<in>set (take (length issue - 1) issue). c \<noteq> newline)"
        using "1.IH"[OF lt] True by blast
      then have "(\<exists>r. trimIssue (ys @ [a]) = Inr r) \<longleftrightarrow>
             2 \<le> length (ys @ [a]) \<and> (\<exists>c\<in>set (ys @ [a]). c \<noteq> newline)"
        unfolding tk .
      then show ?thesis using True iss step by (cases ys) auto
    next
      case False
      have "trimIssue issue = Inr issue"
        using False by (subst trimIssue.simps) (auto simp add: lt)
      then show ?thesis using False iss by auto
    qed
  qed
qed

lemma trimIssue_abort: "trimIssue issue = Inl a \<Longrightarrow> a = SliceOutOfRange"
proof (induction issue arbitrary: a rule: trimIssue.induct)
  case (1 issue)
  show ?case
  proof (cases "lastTwo issue")
    case (Inl b)
    then have "b = SliceOutOfRange" by (auto simp add: lastTwo_def split: if_splits)
    moreover have "trimIssue issue = Inl b" using Inl by (subst trimIssue.simps) simp
    ultimately show ?thesis using "1.prems" by simp
  next
    case (Inr t)
    show ?thesis
    proof (cases "t = [newline, newline]")
      case True
      have "trimIssue issue = trimIssue (take (length issue - 1) issue)"
        using Inr True by (subst trimIssue.simps) simp
      with "1.prems" have "trimIssue (take (length issue - 1) issue) = Inl a" by simp
      then show ?thesis using "1.IH"[OF Inr True] by blast
    next
      case False
      have "trimIssue issue = Inr issue" using Inr False by (subst trimIssue.simps) simp
      then show ?thesis using "1.prems" by simp
    qed
  qed
qed

text \<open>
  Claim C9, as amended.  When the issue file exists and is read, \<^verbatim>\<open>printIssue\<close> panics
  with a slice out of range exactly when the evaluated text is shorter than two bytes
  or consists of newlines only, and prints exactly when the text has at least two
  bytes, one of them not a newline.  The first evaluation of
  \<^verbatim>\<open>issue[len(issue)-2:]\<close> is out of range for a text shorter than two bytes and in
  bounds otherwise; a later one is out of range when the loop has cut a text of
  newlines down to one byte.
\<close>

theorem printIssue_panics_iff:
  assumes "pathExists w path" and "ioutilReadFile w path = Inr contents"
  shows "(length (evaluatedIssue w contents tty) < 2 \<longrightarrow>
            lastTwo (evaluatedIssue w contents tty) = Inl SliceOutOfRange)
       \<and> (2 \<le> length (evaluatedIssue w contents tty) \<longrightarrow>
            lastTwo (evaluatedIssue w contents tty)
              = Inr (drop (length (evaluatedIssue w contents tty) - 2) (evaluatedIssue w contents tty)))
       \<and> (printIssue w path tty = Inl SliceOutOfRange \<longleftrightarrow>
            length (evaluatedIssue w contents tty) < 2
            \<or> (\<forall>c\<in>set (evaluatedIssue w contents tty). c = newline))
       \<and> ((\<exists>text. printIssue w path tty = Inr (Some text)) \<longleftrightarrow>
            2 \<le> length (evaluatedIssue w contents tty)
            \<and> (\<exists>c\<in>set (evaluatedIssue w contents tty). c \<noteq> newline))"
proof -
  let ?e = "evaluatedIssue w contents tty"
  have p: "printIssue w path tty =
        (case trimIssue ?e of Inl a \<Rightarrow> Inl a | Inr issue \<Rightarrow> Inr (Some (revertColorEscaping w issue)))"
    using assms by (simp add: printIssue_def)
  have r: "(\<exists>r. trimIssue ?e = Inr r) \<longleftrightarrow> 2 \<le> length ?e \<and> (\<exists>c\<in>set ?e. c \<noteq> newline)"
    by (rule trimIssue_returns_iff)
  have a: "\<And>x. trimIssue ?e = Inl x \<Longrightarrow> x = SliceOutOfRange"
    by (rule trimIssue_abort)
  have c3: "printIssue w path tty = Inl SliceOutOfRange \<longleftrightarrow>
            length ?e < 2 \<or> (\<forall>c\<in>set ?e. c = newline)"
  proof (cases "trimIssue ?e")
    case (Inl x)
    with a have "x = SliceOutOfRange" by simp
    with Inl p r show ?thesis by auto
  next
    case (Inr y)
    with p r show ?thesis by auto
  qed
  have c4: "(\<exists>text. printIssue w path tty = Inr (Some text)) \<longleftrightarrow>
            2 \<le> length ?e \<and> (\<exists>c\<in>set ?e. c \<noteq> newline)"
  proof (cases "trimIssue ?e")
    case (Inl x)
    with p r show ?thesis by auto
  next
    case (Inr y)
    with p r show ?thesis by auto
  qed
  show ?thesis using c3 c4 by (simp add: lastTwo_def)
qed

text \<open>
  Claim C9 as stated fails: the text of two newlines has length 2, and the loop
  cuts it to one byte and then slices out of range.
\<close>

theorem printIssue_two_newlines_counterexample:
  "2 \<le> length [newline, newline]
   \<and> printIssue (issueFile [newline, newline]) ''/etc/issue'' ''tty2'' = Inl SliceOutOfRange"
  by code_simp

text \<open>The theorem for C9 at an issue file of ten bytes and at the empty issue file.\<close>

theorem printIssue_panics_iff_witness:
  "pathExists (issueFile ''Arch Linux'') ''/etc/issue''
   \<and> ioutilReadFile (issueFile ''Arch Linux'') ''/etc/issue'' = Inr ''Arch Linux''
   \<and> printIssue (issueFile ''Arch Linux'') ''/etc/issue'' ''tty2'' \<noteq> Inl SliceOutOfRange
   \<and> printIssue (issueFile []) ''/etc/issue'' ''tty2'' = Inl SliceOutOfRange"
proof -
  have h1: "pathExists (issueFile ''Arch Linux'') ''/etc/issue''" by code_simp
  have h2: "ioutilReadFile (issueFile ''Arch Linux'') ''/etc/issue'' = Inr ''Arch Linux''"
    by code_simp
  have k1: "pathExists (issueFile []) ''/etc/issue''" by code_simp
  have k2: "ioutilReadFile (issueFile []) ''/etc/issue'' = Inr []" by code_simp
  have e1: "evaluatedIssue (issueFile ''Arch Linux'') ''Arch Linux'' ''tty2'' = ''Arch Linux''"
    by code_simp
  have e2: "evaluatedIssue (issueFile []) [] ''tty2'' = []" by code_simp
  have n: "CHR ''A'' \<noteq> newline" by code_simp
  have c1: "printIssue (issueFile ''Arch Linux'') ''/etc/issue'' ''tty2'' \<noteq> Inl SliceOutOfRange"
    using printIssue_panics_iff [OF h1 h2, of "''tty2''"] n by (simp add: e1)
  have c2: "printIssue (issueFile []) ''/etc/issue'' ''tty2'' = Inl SliceOutOfRange"
    using printIssue_panics_iff [OF k1 k2, of "''tty2''"] by (simp add: e2)
  show ?thesis using h1 h2 c1 c2 by simp
qed

subsection \<open>The command of the session\<close>

lemma strings_Split_adjacent_spaces:
  "strings_Split ''a  b'' CHR '' '' = [''a'', [], ''b'']"
  by simp




text \<open>
  Claim C6, as amended.  For a selection of the Xorg family whose command line allows
  a startup prefix, when the configuration enables \<^verbatim>\<open>XinitrcLaunch\<close>, the file
  \<^verbatim>\<open>.xinitrc\<close> exists in the home directory and the command line does not contain
  \<^verbatim>\<open>.xinitrc\<close>, the path of the script and a space are put before the command line
  and the result is run through the login shell.
\<close>

theorem prepareGuiCommand_xinitrc:
  assumes "snd (prepareGuiCommand w s) = (c, se)"
    and "denv (d s) = Xorg"
    and "fileExists w (homedir (usr s) @ ''/.xinitrc'')"
    and "\<not> strings_Contains (strExec (d s)) ''.xinitrc''"
    and "XinitrcLaunch (conf s)"
    and "allowStartupPrefix (d s)"
  shows "se = homedir (usr s) @ ''/.xinitrc '' @ strExec (d s)
       \<and> c = cmdAsUser (usr s) (getLoginShell s) (strings_Split se CHR '' '')"
  using assms
  by (auto simp add: prepareGuiCommand_def getStrExec_def Let_def split: if_splits)

text \<open>
  Claim C6 as stated fails: with \<^verbatim>\<open>XinitrcLaunch\<close> off in the configuration, an Xorg
  session with an existing \<^verbatim>\<open>.xinitrc\<close> is started without the script and without
  the shell.
\<close>

theorem prepareGuiCommand_xinitrc_counterexample:
  "denv (d (newSession alice xorgDesktop tty2Config)) = Xorg
   \<and> fileExists quietWorld (homedir (usr (newSession alice xorgDesktop tty2Config)) @ ''/.xinitrc'')
   \<and> \<not> strings_Contains (strExec (d (newSession alice xorgDesktop tty2Config))) ''.xinitrc''
   \<and> snd (prepareGuiCommand quietWorld (newSession alice xorgDesktop tty2Config))
       = (\<lparr>cmdName = ''i3 -V'', cmdArgs = [], cmdUid = 1000, cmdGid = 1000\<rparr>,
          ''i3 -V'')"
  by code_simp

text \<open>The theorem for C6 at an Xorg session with \<^verbatim>\<open>XinitrcLaunch\<close> on.\<close>

theorem prepareGuiCommand_xinitrc_witness:
  "snd (prepareGuiCommand quietWorld
          (newSession alice xorgDesktop (tty2Config\<lparr>XinitrcLaunch := True\<rparr>)))
     = (\<lparr>cmdName = ''/bin/sh'', cmdArgs = [''/home/alice/.xinitrc'', ''i3'', ''-V''],
           cmdUid = 1000, cmdGid = 1000\<rparr>,
        ''/home/alice/.xinitrc i3 -V'')
   \<and> ''/home/alice/.xinitrc i3 -V'' = ''/home/alice'' @ ''/.xinitrc '' @ ''i3 -V''"
proof -
  let ?s = "newSession alice xorgDesktop (tty2Config\<lparr>XinitrcLaunch := True\<rparr>)"
  let ?c = "\<lparr>cmdName = ''/bin/sh'', cmdArgs = [''/home/alice/.xinitrc'', ''i3'', ''-V''],
              cmdUid = 1000, cmdGid = 1000\<rparr>"
  have h: "snd (prepareGuiCommand quietWorld ?s) = (?c, ''/home/alice/.xinitrc i3 -V'')"
    by code_simp
  have h1: "denv (d ?s) = Xorg" by code_simp
  have h2: "fileExists quietWorld (homedir (usr ?s) @ ''/.xinitrc'')" by code_simp
  have h3: "\<not> strings_Contains (strExec (d ?s)) ''.xinitrc''" by code_simp
  have h4: "XinitrcLaunch (conf ?s)" by code_simp
  have h5: "allowStartupPrefix (d ?s)" by code_simp
  have e: "homedir (usr ?s) = ''/home/alice''" "strExec (d ?s) = ''i3 -V''" by code_simp+
  have "''/home/alice/.xinitrc i3 -V'' = homedir (usr ?s) @ ''/.xinitrc '' @ strExec (d ?s)"
    using prepareGuiCommand_xinitrc [OF h h1 h2 h3 h4 h5] by simp
  then show ?thesis using h e by simp
qed

subsection \<open>The environment policy\<close>

lemmas env_names =
  envXdgConfigHome_def envXdgRuntimeDir_def envXdgSessionId_def envXdgSessionType_def
  envXdgSessionClass_def envXdgSeat_def envHome_def envPwd_def envUser_def
  envLogname_def envXauthority_def envDisplay_def envShell_def envLang_def
  envPath_def envDesktopSession_def envXdgSessDesktop_def envUid_def

lemma env_setenv: "env (setenv u k' v) k = (if k = k' then Some v else env u k)"
  by (simp add: setenv_def)

lemma env_setenvIfEmpty_other: "k \<noteq> k' \<Longrightarrow> env (setenvIfEmpty u k' v) k = env u k"
  by (simp add: setenvIfEmpty_def env_setenv)

lemma conf_beforeCommand [simp]: "conf (beforeCommand s) = conf s"
  by (simp add: beforeCommand_def Let_def)

lemma environmentPolicy_suppressed:
  assumes "NoXdgFallback (conf s)"
    and "k \<notin> {envHome, envPwd, envUser, envLogname, envUid, envShell, envLang, envPath}"
  shows "env (environmentPolicy w s) k = env (defineSpecificEnvVariables w (usr s)) k"
  using assms
  by (simp add: environmentPolicy_def Let_def env_setenv env_setenvIfEmpty_other)

text \<open>
  Claim C7.  When the fallback is suppressed, \<^verbatim>\<open>defineEnvironment\<close> returns, and the
  entries of the environment for the configuration home, the runtime directory, the
  seat, the session class and the two desktop-session names are the ones it received
  (after \<^verbatim>\<open>defineSpecificEnvVariables\<close>, the first statement of the function, whose body
  is outside the source files).  The statements of \<^verbatim>\<open>start\<close> between the carrier
  start and the command, which set the session type, leave the whole identity as it
  is.
\<close>

theorem fallback_suppressed_frame:
  assumes "NoXdgFallback (conf s)"
    and "k \<in> {envXdgConfigHome, envXdgRuntimeDir, envXdgSeat, envXdgSessionClass,
               envDesktopSession, envXdgSessDesktop}"
  shows "\<exists>s'. outcome (defineEnvironment w s) = Inr s'
            \<and> env (usr s') k = env (defineSpecificEnvVariables w (usr s)) k
            \<and> usr (beforeCommand s') = usr s'"
proof -
  have "k \<notin> {envHome, envPwd, envUser, envLogname, envUid, envShell, envLang, envPath}"
    using assms(2) by (auto simp add: env_names)
  then have "env (environmentPolicy w s) k = env (defineSpecificEnvVariables w (usr s)) k"
    using assms(1) by (rule environmentPolicy_suppressed [rotated])
  then show ?thesis
    using assms(1) by (simp add: outcome_defineEnvironment beforeCommand_def Let_def)
qed

text \<open>The theorem for C7 at a user who arrives with a seat already set.\<close>

theorem fallback_suppressed_frame_witness:
  "NoXdgFallback (conf (newSession (alice\<lparr>env := [envXdgSeat \<mapsto> ''seat7'']\<rparr>) compositorDesktop
                         (tty2Config\<lparr>NoXdgFallback := True\<rparr>)))
   \<and> envXdgSeat \<in> {envXdgConfigHome, envXdgRuntimeDir, envXdgSeat, envXdgSessionClass,
                     envDesktopSession, envXdgSessDesktop}
   \<and> (\<exists>s'. outcome (defineEnvironment quietWorld
                (newSession (alice\<lparr>env := [envXdgSeat \<mapsto> ''seat7'']\<rparr>) compositorDesktop
                   (tty2Config\<lparr>NoXdgFallback := True\<rparr>))) = Inr s'
          \<and> env (usr s') envXdgSeat = Some ''seat7'')"
proof -
  let ?s = "newSession (alice\<lparr>env := [envXdgSeat \<mapsto> ''seat7'']\<rparr>) compositorDesktop
              (tty2Config\<lparr>NoXdgFallback := True\<rparr>)"
  have h1: "NoXdgFallback (conf ?s)" by code_simp
  have h2: "envXdgSeat \<in> {envXdgConfigHome, envXdgRuntimeDir, envXdgSeat, envXdgSessionClass,
                     envDesktopSession, envXdgSessDesktop}" by simp
  have e: "env (defineSpecificEnvVariables quietWorld (usr ?s)) envXdgSeat = Some ''seat7''"
    by code_simp
  show ?thesis
    using fallback_suppressed_frame [OF h1 h2, of quietWorld] h1 h2 e by auto
qed

lemma uid_setenv [simp]: "uid (setenv u k v) = uid u" "gid (setenv u k v) = gid u"
  by (simp_all add: setenv_def)

lemma uid_setenvIfEmpty [simp]:
  "uid (setenvIfEmpty u k v) = uid u" "gid (setenvIfEmpty u k v) = gid u"
  by (simp_all add: setenvIfEmpty_def)

lemma uid_environmentPolicy:
  "uid (environmentPolicy w s) = uid (defineSpecificEnvVariables w (usr s))"
  "gid (environmentPolicy w s) = gid (defineSpecificEnvVariables w (usr s))"
  by (simp_all add: environmentPolicy_def Let_def split: option.splits)

text \<open>
  Claim C4, as amended.  When the fallback is not suppressed and the runtime directory
  does not exist, \<^verbatim>\<open>defineEnvironment\<close> calls \<^verbatim>\<open>os.MkdirAll\<close> on it with mode 0700.
  If the creation succeeds it calls \<^verbatim>\<open>os.Chown\<close> with the uid and gid of the user,
  logs and goes on.  If the creation fails the error goes to \<^verbatim>\<open>handleErr\<close>, the
  handler of a failed launch: the function does not return and nothing follows.
\<close>

theorem runtime_dir_creation:
  assumes "\<not> NoXdgFallback (conf s)"
    and "\<not> fileExists w (getenv (environmentPolicy w s) envXdgRuntimeDir)"
  shows "trace (defineEnvironment w s) =
           LogPrint ''Defined Environment'' #
           MkdirAll (getenv (environmentPolicy w s) envXdgRuntimeDir) 448 #
           (case mkdirAllErr w of
              None \<Rightarrow> [Chown (getenv (environmentPolicy w s) envXdgRuntimeDir)
                          (uid (defineSpecificEnvVariables w (usr s)))
                          (gid (defineSpecificEnvVariables w (usr s))),
                        LogPrint ''Created XDG folder'',
                        Chdir (getenv (environmentPolicy w s) envPwd)]
            | Some e \<Rightarrow> [HandleErr e])
       \<and> outcome (defineEnvironment w s) =
           (case mkdirAllErr w of
              None \<Rightarrow> Inr (s\<lparr>usr := environmentPolicy w s\<rparr>)
            | Some e \<Rightarrow> Inl ExitProcess)"
  using assms
  by (simp add: trace_defineEnvironment outcome_defineEnvironment Let_def uid_environmentPolicy
      split: option.splits)

text \<open>
  Claim C4 as stated fails: when the runtime directory cannot be created the session
  attempt ends in the error handler, before the carrier is started.
\<close>

theorem runtime_dir_creation_counterexample:
  "\<not> NoXdgFallback (conf (newSession alice compositorDesktop tty2Config))
   \<and> \<not> fileExists (quietWorld\<lparr>mkdirAllErr := Some ''permission denied''\<rparr>)
         (getenv (environmentPolicy (quietWorld\<lparr>mkdirAllErr := Some ''permission denied''\<rparr>)
                    (newSession alice compositorDesktop tty2Config)) envXdgRuntimeDir)
   \<and> outcome (defineEnvironment (quietWorld\<lparr>mkdirAllErr := Some ''permission denied''\<rparr>)
                (newSession alice compositorDesktop tty2Config)) = Inl ExitProcess
   \<and> trace (startSession (quietWorld\<lparr>mkdirAllErr := Some ''permission denied''\<rparr>)
              alice compositorDesktop tty2Config)
       = [LogPrint ''Defined Environment'', MkdirAll ''/run/user/1000'' 448,
          HandleErr ''permission denied'']"
proof -
  let ?w = "quietWorld\<lparr>mkdirAllErr := Some ''permission denied''\<rparr>"
  let ?s = "newSession alice compositorDesktop tty2Config"
  have a: "\<not> NoXdgFallback (conf ?s)" by code_simp
  have b: "\<not> fileExists ?w (getenv (environmentPolicy ?w ?s) envXdgRuntimeDir)" by code_simp
  have c: "mkdirAllErr ?w = Some ''permission denied''" by code_simp
  have o: "outcome (defineEnvironment ?w ?s) = Inl ExitProcess"
    using a b c by (simp add: outcome_defineEnvironment)
  have t: "trace (startSession ?w alice compositorDesktop tty2Config)
       = [LogPrint ''Defined Environment'', MkdirAll ''/run/user/1000'' 448,
          HandleErr ''permission denied'']" by code_simp
  show ?thesis using a b o t by simp
qed

text \<open>The theorem for C4 at a session whose runtime directory is created.\<close>

theorem runtime_dir_creation_witness:
  "\<not> NoXdgFallback (conf (newSession alice compositorDesktop tty2Config))
   \<and> \<not> fileExists quietWorld
         (getenv (environmentPolicy quietWorld (newSession alice compositorDesktop tty2Config))
            envXdgRuntimeDir)
   \<and> trace (defineEnvironment quietWorld (newSession alice compositorDesktop tty2Config)) =
       [LogPrint ''Defined Environment'', MkdirAll ''/run/user/1000'' 448,
        Chown ''/run/user/1000'' 1000 1000, LogPrint ''Created XDG folder'',
        Chdir ''/home/alice'']"
proof -
  let ?s = "newSession alice compositorDesktop tty2Config"
  have a: "\<not> NoXdgFallback (conf ?s)" by code_simp
  have b: "\<not> fileExists quietWorld (getenv (environmentPolicy quietWorld ?s) envXdgRuntimeDir)"
    by code_simp
  have c: "mkdirAllErr quietWorld = None" by code_simp
  have d: "getenv (environmentPolicy quietWorld ?s) envXdgRuntimeDir = ''/run/user/1000''"
    by code_simp
  have e: "getenv (environmentPolicy quietWorld ?s) envPwd = ''/home/alice''" by code_simp
  have f: "uid (defineSpecificEnvVariables quietWorld (usr ?s)) = 1000"
          "gid (defineSpecificEnvVariables quietWorld (usr ?s)) = 1000" by code_simp+
  show ?thesis
    using runtime_dir_creation [OF a b] a b by (simp add: c d e f)
qed

subsection \<open>The controller\<close>

lemma filter_via_lifecycle:
  assumes "\<And>e. P e \<Longrightarrow> isLifecycleEvent e"
  shows "filter P t = filter P (filter isLifecycleEvent t)"
  using assms by (induction t) auto

lemma outcome_start:
  assumes "prepareGuiCommand w (beforeCommand (s0\<lparr>usr := environmentPolicy w s0\<rparr>)) = (s, c, se)"
  shows "outcome (start w s0) =
     (case outcome (defineEnvironment w s0) of Inl a \<Rightarrow> Inl a
      | Inr s1 \<Rightarrow>
         (case outcome (startCarrier w s0) of Inl a \<Rightarrow> Inl a
          | Inr x \<Rightarrow>
             (case outcome (launch w s c se) of Inl a \<Rightarrow> Inl a
              | Inr y \<Rightarrow>
                 (case outcome (supervise w s) of Inl a \<Rightarrow> Inl a
                  | Inr (err, cerr) \<Rightarrow> outcome (escalate w s se err cerr)))))"
  using assms
  by (simp add: start_def run outcome_defineEnvironment outcome_startCarrier
      split: sum.splits option.splits prod.splits)

lemma prepared:
  "\<exists>s c se. prepareGuiCommand w (beforeCommand (s0\<lparr>usr := environmentPolicy w s0\<rparr>)) = (s, c, se)"
  by (metis prod_cases3)

lemma handleStrErr_is_lifecycle: "isHandleStrErr e \<Longrightarrow> isLifecycleEvent e"
  by (cases e) auto
lemma addUtmp_is_lifecycle: "isAddUtmpEntry e \<Longrightarrow> isLifecycleEvent e"
  by (cases e) auto
lemma endUtmp_is_lifecycle: "isEndUtmpEntry e \<Longrightarrow> isLifecycleEvent e"
  by (cases e) auto
lemma ledger_is_lifecycle: "isLedgerEvent e \<Longrightarrow> isLifecycleEvent e"
  by (cases e) auto

lemma filter_isHandleStrErr_idem:
  assumes "\<And>m. \<not> P (HandleStrErr m)"
  shows "filter (\<lambda>x. isHandleStrErr x \<and> P x) t = []"
  using assms by (induction t) (auto elim: isHandleStrErr.elims)

lemma lifecycle_not_reached:
  assumes "prepareGuiCommand w (beforeCommand (s0\<lparr>usr := environmentPolicy w s0\<rparr>)) = (s, c, se)"
    and "\<not> reached w s0"
  shows "filter isLifecycleEvent (trace (start w s0)) = []"
  using assms(2) unfolding reached_def
  by (cases "outcome (defineEnvironment w s0)"; cases "session s0"; cases "startCarrierErr w";
      simp add: lifecycle_start [OF assms(1)])

lemma lifecycle_reached:
  assumes "prepareGuiCommand w (beforeCommand (s0\<lparr>usr := environmentPolicy w s0\<rparr>)) = (s, c, se)"
    and "reached w s0"
  shows "\<exists>k. session s0 = Some k \<and> filter isLifecycleEvent (trace (start w s0)) =
           SessionStart c #
           (case startErr w of
              Some err \<Rightarrow> [FinishCarrier k]
            | None \<Rightarrow>
                [AddUtmpEntry (username (usr s)) (accountingPid w) (strTTY (conf s))
                   (getenv (usr s) envDisplay),
                 SessionWait, FinishCarrier k, EndUtmpEntry] @
                filter isHandleStrErr
                  (trace (escalate w s se (waitErr w) (finishCarrierErr w))))"
  using assms(2) unfolding reached_def
  by (cases "outcome (defineEnvironment w s0)"; cases "session s0"; cases "startCarrierErr w";
      simp add: lifecycle_start [OF assms(1)])

lemma sessionStart_reached:
  assumes "SessionStart c' \<in> set (trace (start w s0))"
  shows "reached w s0"
proof (rule ccontr)
  assume n: "\<not> reached w s0"
  obtain s c se where p:
    "prepareGuiCommand w (beforeCommand (s0\<lparr>usr := environmentPolicy w s0\<rparr>)) = (s, c, se)"
    using prepared by blast
  have "SessionStart c' \<in> set (filter isLifecycleEvent (trace (start w s0)))"
    using assms by simp
  then show False by (simp add: lifecycle_not_reached [OF p n])
qed

text \<open>
  Claim C1.  When the interrupt flag is set before the controller evaluates the exit
  status, the trace of \<^verbatim>\<open>start\<close> holds no call of \<^verbatim>\<open>handleStrErr\<close> with a message,
  whatever \<^verbatim>\<open>session.Wait()\<close> and \<^verbatim>\<open>finishCarrier()\<close> return; and once the child
  has been waited for, \<^verbatim>\<open>start\<close> returns.
\<close>

theorem interrupted_exit_not_surfaced:
  assumes "interrupt w = BeforeExitCheck"
  shows "(\<forall>e\<in>set (trace (start w s0)). \<not> isHandleStrErr e)
       \<and> (SessionWait \<in> set (trace (start w s0)) \<longrightarrow> outcome (start w s0) = Inr ())"
proof -
  obtain s c se where p:
    "prepareGuiCommand w (beforeCommand (s0\<lparr>usr := environmentPolicy w s0\<rparr>)) = (s, c, se)"
    using prepared by blast
  have ss: "session s = session s0"
    using session_prepareGuiCommand [OF p] by simp
  have esc: "\<And>err cerr. trace (escalate w s se err cerr) = []"
    using assms by (rule handleStrErr_free_escalate)
  have via: "filter isHandleStrErr (trace (start w s0))
          = filter isHandleStrErr (filter isLifecycleEvent (trace (start w s0)))"
    by (rule filter_via_lifecycle) (rule handleStrErr_is_lifecycle)
  show ?thesis
  proof (cases "reached w s0")
    case False
    have "filter isLifecycleEvent (trace (start w s0)) = []"
      using p False by (rule lifecycle_not_reached)
    moreover from this have "SessionWait \<notin> set (trace (start w s0))"
      by (auto simp add: filter_empty_conv)
    ultimately show ?thesis using via by (simp add: filter_empty_conv)
  next
    case True
    then obtain k where k: "session s0 = Some k"
      and l: "filter isLifecycleEvent (trace (start w s0)) =
           SessionStart c #
           (case startErr w of
              Some err \<Rightarrow> [FinishCarrier k]
            | None \<Rightarrow>
                [AddUtmpEntry (username (usr s)) (accountingPid w) (strTTY (conf s))
                   (getenv (usr s) envDisplay),
                 SessionWait, FinishCarrier k, EndUtmpEntry] @
                filter isHandleStrErr
                  (trace (escalate w s se (waitErr w) (finishCarrierErr w))))"
      using lifecycle_reached [OF p] by blast
    have none: "\<forall>e\<in>set (trace (start w s0)). \<not> isHandleStrErr e"
      using via by (simp add: l esc filter_empty_conv split: option.splits)
    have ret: "outcome (start w s0) = Inr ()" if "SessionWait \<in> set (trace (start w s0))"
    proof -
      have "SessionWait \<in> set (filter isLifecycleEvent (trace (start w s0)))"
        using that by simp
      then have "startErr w = None"
        by (simp add: l esc split: option.splits)
      then show ?thesis
        using True assms k unfolding reached_def
        by (auto simp add: outcome_start [OF p] outcome_startCarrier outcome_launch
            outcome_supervise ss outcome_escalate_interrupted)
    qed
    show ?thesis using none ret by blast
  qed
qed

text \<open>
  The theorem for C1 at an interrupted Xorg session whose child and carrier both end
  with an error.
\<close>

theorem interrupted_exit_not_surfaced_witness:
  "interrupt (quietWorld\<lparr>waitErr := Some ''signal: interrupt'',
                          finishCarrierErr := Some ''exit status 1'',
                          interrupt := BeforeExitCheck\<rparr>) = BeforeExitCheck
   \<and> SessionWait \<in> set (trace (start (quietWorld\<lparr>waitErr := Some ''signal: interrupt'',
                          finishCarrierErr := Some ''exit status 1'',
                          interrupt := BeforeExitCheck\<rparr>)
                  (newSession alice xorgDesktop tty2Config)))
   \<and> filter isHandleStrErr
         (trace (start (quietWorld\<lparr>waitErr := Some ''signal: interrupt'',
                          finishCarrierErr := Some ''exit status 1'',
                          interrupt := BeforeExitCheck\<rparr>)
                  (newSession alice xorgDesktop tty2Config))) = []
   \<and> outcome (start (quietWorld\<lparr>waitErr := Some ''signal: interrupt'',
                          finishCarrierErr := Some ''exit status 1'',
                          interrupt := BeforeExitCheck\<rparr>)
                  (newSession alice xorgDesktop tty2Config)) = Inr ()"
proof -
  let ?w = "quietWorld\<lparr>waitErr := Some ''signal: interrupt'',
                          finishCarrierErr := Some ''exit status 1'',
                          interrupt := BeforeExitCheck\<rparr>"
  let ?s = "newSession alice xorgDesktop tty2Config"
  have h: "interrupt ?w = BeforeExitCheck" by code_simp
  have r: "SessionWait \<in> set (trace (start ?w ?s))" by code_simp
  show ?thesis
    using interrupted_exit_not_surfaced [OF h, of ?s] h r by (simp add: filter_empty_conv)
qed

text \<open>Without the interrupt, the error of the child is reported and ends the process.\<close>

lemma uninterrupted_exit_surfaced:
  "trace (startSession (quietWorld\<lparr>waitErr := Some ''exit status 1''\<rparr>)
            alice compositorDesktop tty2Config)
   = [LogPrint ''Defined Environment'', MkdirAll ''/run/user/1000'' 448,
      Chown ''/run/user/1000'' 1000 1000, LogPrint ''Created XDG folder'',
      Chdir ''/home/alice'', StartCarrier waylandSession, SpawnInterruptWatcher,
      LogPrint ''Starting sway'',
      SessionStart \<lparr>cmdName = ''sway'', cmdArgs = [], cmdUid = 1000, cmdGid = 1000\<rparr>,
      AddUtmpEntry ''alice'' 4242 ''tty2'' [], LogPrint ''Added utmp entry'',
      SessionWait, FinishCarrier waylandSession, EndUtmpEntry,
      LogPrint ''Ended utmp entry'',
      LogPrint ''sway finished with error: exit status 1. For more details see `SESSION_ERROR_LOGGING` in configuration.'',
      HandleStrErr ''Wayland session finished with error, please check logs'']"
  by code_simp

text \<open>
  Claim C2.  In every run of \<^verbatim>\<open>start\<close> the number of calls of \<^verbatim>\<open>addUtmpEntry\<close>
  equals the number of calls of \<^verbatim>\<open>endUtmpEntry\<close>.  When the child fails to start
  both are zero.  When the child is started, the accounting calls of the run are
  exactly one \<^verbatim>\<open>addUtmpEntry\<close> followed by one \<^verbatim>\<open>endUtmpEntry\<close>, interrupted or not.
\<close>

theorem accounting_paired:
  "countEv isAddUtmpEntry (start w s0) = countEv isEndUtmpEntry (start w s0)
   \<and> (startErr w \<noteq> None \<longrightarrow>
         countEv isAddUtmpEntry (start w s0) = 0 \<and> countEv isEndUtmpEntry (start w s0) = 0)
   \<and> (startErr w = None \<and> (\<exists>c. SessionStart c \<in> set (trace (start w s0))) \<longrightarrow>
         (\<exists>u p t dsp. filter isLedgerEvent (trace (start w s0))
                        = [AddUtmpEntry u p t dsp, EndUtmpEntry]))"
proof -
  obtain s c se where p:
    "prepareGuiCommand w (beforeCommand (s0\<lparr>usr := environmentPolicy w s0\<rparr>)) = (s, c, se)"
    using prepared by blast
  have va: "filter isAddUtmpEntry (trace (start w s0))
          = filter isAddUtmpEntry (filter isLifecycleEvent (trace (start w s0)))"
    by (rule filter_via_lifecycle) (rule addUtmp_is_lifecycle)
  have ve: "filter isEndUtmpEntry (trace (start w s0))
          = filter isEndUtmpEntry (filter isLifecycleEvent (trace (start w s0)))"
    by (rule filter_via_lifecycle) (rule endUtmp_is_lifecycle)
  have vl: "filter isLedgerEvent (trace (start w s0))
          = filter isLedgerEvent (filter isLifecycleEvent (trace (start w s0)))"
    by (rule filter_via_lifecycle) (rule ledger_is_lifecycle)
  have h: "\<And>t. filter (\<lambda>x. isHandleStrErr x \<and> isAddUtmpEntry x) t = []"
          "\<And>t. filter (\<lambda>x. isHandleStrErr x \<and> isEndUtmpEntry x) t = []"
          "\<And>t. filter (\<lambda>x. isHandleStrErr x \<and> isLedgerEvent x) t = []"
    by (rule filter_isHandleStrErr_idem, simp)+
  show ?thesis
  proof (cases "reached w s0")
    case False
    have l: "filter isLifecycleEvent (trace (start w s0)) = []"
      using p False by (rule lifecycle_not_reached)
    have "\<not> (\<exists>c. SessionStart c \<in> set (trace (start w s0)))"
      using False sessionStart_reached by blast
    then show ?thesis using va ve by (simp add: countEv_def l)
  next
    case True
    then obtain k where
      l: "filter isLifecycleEvent (trace (start w s0)) =
           SessionStart c #
           (case startErr w of
              Some err \<Rightarrow> [FinishCarrier k]
            | None \<Rightarrow>
                [AddUtmpEntry (username (usr s)) (accountingPid w) (strTTY (conf s))
                   (getenv (usr s) envDisplay),
                 SessionWait, FinishCarrier k, EndUtmpEntry] @
                filter isHandleStrErr
                  (trace (escalate w s se (waitErr w) (finishCarrierErr w))))"
      using lifecycle_reached [OF p] by blast
    show ?thesis
      using va ve vl by (simp add: countEv_def l h split: option.splits)
  qed
qed

text \<open>
  The theorem for C2 at a session whose child fails to start and at one whose child
  runs.
\<close>

theorem accounting_paired_witness:
  "(startErr (quietWorld\<lparr>startErr := Some ''exec: not found''\<rparr>) \<noteq> None
     \<and> countEv isAddUtmpEntry (start (quietWorld\<lparr>startErr := Some ''exec: not found''\<rparr>)
                                  (newSession alice xorgDesktop tty2Config)) = 0
     \<and> countEv isEndUtmpEntry (start (quietWorld\<lparr>startErr := Some ''exec: not found''\<rparr>)
                                  (newSession alice xorgDesktop tty2Config)) = 0)
   \<and> (startErr quietWorld = None
     \<and> (\<exists>c. SessionStart c \<in> set (trace (start quietWorld (newSession alice xorgDesktop tty2Config))))
     \<and> (\<exists>u p t dsp. filter isLedgerEvent
                        (trace (start quietWorld (newSession alice xorgDesktop tty2Config)))
                      = [AddUtmpEntry u p t dsp, EndUtmpEntry]))"
proof -
  let ?wf = "quietWorld\<lparr>startErr := Some ''exec: not found''\<rparr>"
  let ?s = "newSession alice xorgDesktop tty2Config"
  have f: "startErr ?wf \<noteq> None" by code_simp
  have n: "startErr quietWorld = None" by code_simp
  have "SessionStart \<lparr>cmdName = ''i3 -V'', cmdArgs = [], cmdUid = 1000, cmdGid = 1000\<rparr>
          \<in> set (trace (start quietWorld ?s))" by code_simp
  then have r: "\<exists>c. SessionStart c \<in> set (trace (start quietWorld ?s))" by blast
  show ?thesis
    using accounting_paired [of ?wf ?s] accounting_paired [of quietWorld ?s] f n r by blast
qed




lemma utmpPids_filter: "utmpPids (filter isAddUtmpEntry t) = utmpPids t"
  by (induction t rule: utmpPids.induct) auto

text \<open>
  Claim C8.  When the child starts, the one accounting entry of the run is added under
  the pid of the carrier if that is positive, and under the pid of the child
  otherwise.
\<close>

theorem accounting_keyed_by_pid:
  assumes "SessionStart c' \<in> set (trace (start w s0))" and "startErr w = None"
  shows "utmpPids (trace (start w s0))
           = [if 0 < getCarrierPid w then getCarrierPid w else processPid w]"
proof -
  obtain s c se where p:
    "prepareGuiCommand w (beforeCommand (s0\<lparr>usr := environmentPolicy w s0\<rparr>)) = (s, c, se)"
    using prepared by blast
  have r: "reached w s0" using assms(1) by (rule sessionStart_reached)
  then obtain k where
      l: "filter isLifecycleEvent (trace (start w s0)) =
           SessionStart c #
           (case startErr w of
              Some err \<Rightarrow> [FinishCarrier k]
            | None \<Rightarrow>
                [AddUtmpEntry (username (usr s)) (accountingPid w) (strTTY (conf s))
                   (getenv (usr s) envDisplay),
                 SessionWait, FinishCarrier k, EndUtmpEntry] @
                filter isHandleStrErr
                  (trace (escalate w s se (waitErr w) (finishCarrierErr w))))"
    using lifecycle_reached [OF p] by blast
  have va: "filter isAddUtmpEntry (trace (start w s0))
          = filter isAddUtmpEntry (filter isLifecycleEvent (trace (start w s0)))"
    by (rule filter_via_lifecycle) (rule addUtmp_is_lifecycle)
  have h: "\<And>t. filter (\<lambda>x. isHandleStrErr x \<and> isAddUtmpEntry x) t = []"
    by (rule filter_isHandleStrErr_idem) simp
  have "filter isAddUtmpEntry (trace (start w s0))
          = [AddUtmpEntry (username (usr s)) (accountingPid w) (strTTY (conf s))
               (getenv (usr s) envDisplay)]"
    using va assms(2) by (simp add: l h)
  then have "utmpPids (trace (start w s0)) = [accountingPid w]"
    using utmpPids_filter [of "trace (start w s0)"] by simp
  then show ?thesis by (simp add: accountingPid_def)
qed

text \<open>
  The theorem for C8 at an Xorg session whose carrier has pid 977 and at a Wayland
  session whose carrier reports pid 0.
\<close>

theorem accounting_keyed_by_pid_witness:
  "SessionStart \<lparr>cmdName = ''i3 -V'', cmdArgs = [], cmdUid = 1000, cmdGid = 1000\<rparr>
     \<in> set (trace (start (quietWorld\<lparr>getCarrierPid := 977\<rparr>)
                     (newSession alice xorgDesktop tty2Config)))
   \<and> startErr (quietWorld\<lparr>getCarrierPid := 977\<rparr>) = None
   \<and> utmpPids (trace (start (quietWorld\<lparr>getCarrierPid := 977\<rparr>)
                        (newSession alice xorgDesktop tty2Config))) = [977]
   \<and> SessionStart \<lparr>cmdName = ''sway'', cmdArgs = [], cmdUid = 1000, cmdGid = 1000\<rparr>
     \<in> set (trace (start quietWorld (newSession alice compositorDesktop tty2Config)))
   \<and> startErr quietWorld = None
   \<and> utmpPids (trace (start quietWorld (newSession alice compositorDesktop tty2Config)))
       = [4242]"
proof -
  let ?wx = "quietWorld\<lparr>getCarrierPid := 977\<rparr>"
  let ?sx = "newSession alice xorgDesktop tty2Config"
  let ?cx = "\<lparr>cmdName = ''i3 -V'', cmdArgs = [], cmdUid = 1000, cmdGid = 1000\<rparr>"
  let ?sw = "newSession alice compositorDesktop tty2Config"
  let ?cw = "\<lparr>cmdName = ''sway'', cmdArgs = [], cmdUid = 1000, cmdGid = 1000\<rparr>"
  have a: "SessionStart ?cx \<in> set (trace (start ?wx ?sx))" by code_simp
  have b: "startErr ?wx = None" by code_simp
  have c: "SessionStart ?cw \<in> set (trace (start quietWorld ?sw))" by code_simp
  have d: "startErr quietWorld = None" by code_simp
  have e: "getCarrierPid ?wx = 977" "processPid quietWorld = 4242" "getCarrierPid quietWorld = 0"
    by code_simp+
  show ?thesis
    using accounting_keyed_by_pid [OF a b] accounting_keyed_by_pid [OF c d] a b c d
    by (simp add: e)
qed

lemma session_newSession:
  "session (newSession u dsk cnf) =
     (case denv dsk of Wayland \<Rightarrow> Some waylandSession | Xorg \<Rightarrow> Some xorgSession
      | OtherEnv n \<Rightarrow> None)"
  by (simp add: newSession_def Let_def split: enEnvironment.splits)

text \<open>
  Claim C10.  For a family that is neither Wayland nor Xorg, \<^verbatim>\<open>startSession\<close> leaves
  the interface value nil, the call of \<^verbatim>\<open>startCarrier\<close> through it is a nil
  dereference, no carrier is started and \<^verbatim>\<open>startSession\<close> never returns: it panics
  as soon as \<^verbatim>\<open>defineEnvironment\<close> has returned.  For the two known families the
  interface value is set and the call of \<^verbatim>\<open>startCarrier\<close> is not a nil dereference.
\<close>

theorem startSession_family_precondition:
  "(denv dsk \<noteq> Wayland \<and> denv dsk \<noteq> Xorg \<longrightarrow>
      session (newSession u dsk cnf) = None
      \<and> outcome (startCarrier w (newSession u dsk cnf)) = Inl NilDereference
      \<and> outcome (startSession w u dsk cnf) \<noteq> Inr ()
      \<and> ((\<exists>s1. outcome (defineEnvironment w (newSession u dsk cnf)) = Inr s1) \<longrightarrow>
           outcome (startSession w u dsk cnf) = Inl NilDereference)
      \<and> (\<forall>c. StartCarrier c \<notin> set (trace (startSession w u dsk cnf))))
   \<and> (denv dsk = Wayland \<or> denv dsk = Xorg \<longrightarrow>
      session (newSession u dsk cnf) \<noteq> None
      \<and> outcome (startCarrier w (newSession u dsk cnf)) \<noteq> Inl NilDereference)"
proof -
  let ?s0 = "newSession u dsk cnf"
  obtain s c se where p:
    "prepareGuiCommand w (beforeCommand (?s0\<lparr>usr := environmentPolicy w ?s0\<rparr>)) = (s, c, se)"
    using prepared by blast
  have other: ?thesis if n: "denv dsk \<noteq> Wayland" "denv dsk \<noteq> Xorg"
  proof -
    have s: "session ?s0 = None"
      using n by (simp add: session_newSession split: enEnvironment.splits)
    have sc: "outcome (startCarrier w ?s0) = Inl NilDereference"
      by (simp add: outcome_startCarrier s)
    have o: "outcome (startSession w u dsk cnf) =
               (case outcome (defineEnvironment w ?s0) of Inl a \<Rightarrow> Inl a
                | Inr s1 \<Rightarrow> Inl NilDereference)"
      by (simp add: startSession_def outcome_start [OF p] sc split: sum.splits)
    have t: "trace (startSession w u dsk cnf) = trace (defineEnvironment w ?s0)"
    proof (cases "outcome (defineEnvironment w ?s0)")
      case (Inl a)
      then show ?thesis by (simp add: startSession_def trace_start [OF p])
    next
      case (Inr s1)
      then show ?thesis
        by (simp add: startSession_def trace_start [OF p] trace_startCarrier s sc)
    qed
    have nc: "\<forall>c. StartCarrier c \<notin> set (trace (startSession w u dsk cnf))"
      unfolding t by (auto simp add: trace_defineEnvironment Let_def split: option.splits if_splits)
    show ?thesis using n s sc o nc by (auto split: sum.splits)
  qed
  have known: ?thesis if k: "denv dsk = Wayland \<or> denv dsk = Xorg"
  proof -
    have s: "session ?s0 \<noteq> None"
      using k by (auto simp add: session_newSession)
    then have "outcome (startCarrier w ?s0) \<noteq> Inl NilDereference"
      by (auto simp add: outcome_startCarrier split: option.splits)
    with s k show ?thesis by auto
  qed
  show ?thesis using other known by blast
qed

text \<open>The theorem for C10 at an unknown family and at Xorg.\<close>

theorem startSession_family_precondition_witness:
  "denv (compositorDesktop\<lparr>denv := OtherEnv 0\<rparr>) \<noteq> Wayland
   \<and> denv (compositorDesktop\<lparr>denv := OtherEnv 0\<rparr>) \<noteq> Xorg
   \<and> outcome (startSession quietWorld alice (compositorDesktop\<lparr>denv := OtherEnv 0\<rparr>) tty2Config)
       = Inl NilDereference
   \<and> denv xorgDesktop = Xorg
   \<and> outcome (startCarrier quietWorld (newSession alice xorgDesktop tty2Config))
       \<noteq> Inl NilDereference"
proof -
  let ?dsk = "compositorDesktop\<lparr>denv := OtherEnv 0\<rparr>"
  have a: "denv ?dsk \<noteq> Wayland" "denv ?dsk \<noteq> Xorg" by code_simp+
  have b: "denv xorgDesktop = Xorg" by code_simp
  have m: "mkdirAllErr quietWorld = None" by code_simp
  have e: "\<exists>s1. outcome (defineEnvironment quietWorld (newSession alice ?dsk tty2Config)) = Inr s1"
    by (simp add: outcome_defineEnvironment m)
  show ?thesis
    using startSession_family_precondition [of ?dsk alice tty2Config quietWorld]
          startSession_family_precondition [of xorgDesktop alice tty2Config quietWorld]
          a b e by blast
qed

end
